theory Spec2Isabelle
  imports Main "HOL-Library.Sublist"
begin

section \<open>Salesforce permission helpers\<close>

text \<open>
  The module \<^verbatim>\<open>src/salesforce_utils.py\<close> has four functions:
  \<open>connect_to_salesforce\<close>, \<open>create_permission_set\<close>, \<open>set_field_permissions\<close> and
  \<open>create_edit_permission_set\<close>. Each one talks to a remote
  service through the \<open>simple_salesforce\<close> client and writes to a logger. Neither the
  client nor the logger nor Python's \<open>str\<close> is code of the module, so the model takes the
  client and \<open>str\<close> as parameters (the record \<open>env\<close>) and keeps what the module does with
  them: which calls it issues, in which order, with which payloads, what it logs, what it
  returns and what it raises.
\<close>

subsection \<open>Python values\<close>

text \<open>
  The values found in a decoded response payload and written into a request payload:
  \<open>None\<close>, booleans, integers, strings, lists and dictionaries (floating-point numbers
  are left out). A dictionary is an association list in insertion order.
\<close>

datatype pyval =
    PyNone
  | PyBool bool
  | PyInt int
  | PyStr string
  | PyList "pyval list"
  | PyDict "(string \<times> pyval) list"

type_synonym pydict = "(string \<times> pyval) list"

text \<open>Truthiness, as \<open>if result.get("success")\<close> tests it.\<close>

fun truthy :: "pyval \<Rightarrow> bool" where
  "truthy PyNone = False"
| "truthy (PyBool b) = b"
| "truthy (PyInt i) = (i \<noteq> 0)"
| "truthy (PyStr s) = (s \<noteq> [])"
| "truthy (PyList xs) = (xs \<noteq> [])"
| "truthy (PyDict kvs) = (kvs \<noteq> [])"

text \<open>\<open>d.get(k)\<close>: the value stored under \<open>k\<close>, \<open>None\<close> when the key is missing.\<close>

definition dict_get :: "pydict \<Rightarrow> string \<Rightarrow> pyval" where
  "dict_get d k = (case map_of d k of None \<Rightarrow> PyNone | Some v \<Rightarrow> v)"

text \<open>\<open>str(n)\<close> for a length: the decimal digits (\<open>digit_char\<close> is only applied to a
  number below ten).\<close>

definition digit_char :: "nat \<Rightarrow> char" where
  "digit_char d = ''0123456789'' ! d"

function str_nat :: "nat \<Rightarrow> string" where
  "str_nat n = (if n < 10 then [digit_char n] else str_nat (n div 10) @ [digit_char (n mod 10)])"
  by pat_completeness auto
termination
  by (relation "measure id") auto

declare str_nat.simps [simp del]

subsection \<open>Exceptions, the log, the remote service\<close>

text \<open>
  \<open>ValueError\<close> and \<open>Exception\<close> are the two exceptions the module raises itself, each with
  its message. \<open>ClientError\<close> is an exception raised inside the client library: the module
  never inspects it, so its type is a parameter.
\<close>

datatype 'e exn =
    ValueError string
  | Exception string
  | ClientError 'e

datatype level = INFO | DEBUG | ERROR

datatype sobject = PermissionSet | FieldPermissions

text \<open>
  A remote call issued by the module: the construction of a \<open>Salesforce\<close> session
  (username, password, security token, domain) or \<open>sf.<SObject>.create(payload)\<close>.
\<close>

datatype call =
    Authenticate string string string string
  | Create sobject pydict

text \<open>
  The world a call runs in: the state of the remote service, the trace of the remote
  calls issued so far and the lines logged so far.
\<close>

record 'r world =
  remote :: 'r
  calls :: "call list"
  logged :: "(level \<times> string) list"

text \<open>
  What the module imports. \<open>salesforce_login\<close> is the constructor \<open>Salesforce(...)\<close> and
  \<open>sobject_create\<close> is \<open>sf.<SObject>.create\<close>; each returns a value or raises, and changes
  the state of the remote service. \<open>exn_is_Exception\<close> says whether a client exception is
  an instance of \<open>Exception\<close> (what \<open>except Exception\<close> catches), \<open>exn_str\<close> is \<open>str(e)\<close> on
  it, and \<open>value_str\<close> is the text an f-string inserts for a value. What \<open>create\<close> returns
  is a dictionary, as the module's \<open>result.get(...)\<close> expects.
\<close>

record ('s, 'r, 'e) env =
  salesforce_login :: "string \<Rightarrow> string \<Rightarrow> string \<Rightarrow> string \<Rightarrow> 'r \<Rightarrow> ('e + 's) \<times> 'r"
  sobject_create :: "'s \<Rightarrow> sobject \<Rightarrow> pydict \<Rightarrow> 'r \<Rightarrow> ('e + pydict) \<times> 'r"
  exn_is_Exception :: "'e \<Rightarrow> bool"
  exn_str :: "'e \<Rightarrow> string"
  value_str :: "pyval \<Rightarrow> string"

text \<open>\<open>logger.info\<close>, \<open>logger.debug\<close>, \<open>logger.error\<close>: a line is added to the log; the
  call returns normally.\<close>

definition logger :: "level \<Rightarrow> string \<Rightarrow> 'r world \<Rightarrow> 'r world" where
  "logger lvl msg w = w\<lparr>logged := logged w @ [(lvl, msg)]\<rparr>"

text \<open>The two remote operations, recorded in the trace as they are issued.\<close>

definition Salesforce ::
  "('s, 'r, 'e) env \<Rightarrow> string \<Rightarrow> string \<Rightarrow> string \<Rightarrow> string \<Rightarrow> 'r world \<Rightarrow> ('e + 's) \<times> 'r world"
where
  "Salesforce env username password security_token domain w =
     (case salesforce_login env username password security_token domain (remote w) of
        (res, r') \<Rightarrow>
          (res, w\<lparr>remote := r',
                   calls := calls w @ [Authenticate username password security_token domain]\<rparr>))"

definition create ::
  "('s, 'r, 'e) env \<Rightarrow> 's \<Rightarrow> sobject \<Rightarrow> pydict \<Rightarrow> 'r world \<Rightarrow> ('e + pydict) \<times> 'r world"
where
  "create env sf ty payload w =
     (case sobject_create env sf ty payload (remote w) of
        (res, r') \<Rightarrow> (res, w\<lparr>remote := r', calls := calls w @ [Create ty payload]\<rparr>))"

text \<open>\<open>isinstance(e, Exception)\<close> and \<open>str(e)\<close>.\<close>

fun is_Exception :: "('s, 'r, 'e) env \<Rightarrow> 'e exn \<Rightarrow> bool" where
  "is_Exception env (ValueError m) = True"
| "is_Exception env (Exception m) = True"
| "is_Exception env (ClientError e) = exn_is_Exception env e"

fun str_exn :: "('s, 'r, 'e) env \<Rightarrow> 'e exn \<Rightarrow> string" where
  "str_exn env (ValueError m) = m"
| "str_exn env (Exception m) = m"
| "str_exn env (ClientError e) = exn_str env e"

text \<open>
  The handler every function ends with:
  \<^verbatim>\<open>except Exception as e: logger.error(f"<intro>{str(e)}"); raise\<close>.
  It logs and raises the same exception again; a normal result passes through.
\<close>

definition except_log ::
  "('s, 'r, 'e) env \<Rightarrow> string \<Rightarrow> ('e exn + 'a) \<times> 'r world \<Rightarrow> ('e exn + 'a) \<times> 'r world"
where
  "except_log env intro out =
     (case out of
        (Inl e, w) \<Rightarrow>
          (if is_Exception env e then (Inl e, logger ERROR (intro @ str_exn env e) w)
           else (Inl e, w))
      | (Inr v, w) \<Rightarrow> (Inr v, w))"

subsection \<open>The four functions\<close>

definition connect_to_salesforce ::
  "('s, 'r, 'e) env \<Rightarrow> string \<Rightarrow> string \<Rightarrow> string \<Rightarrow> string \<Rightarrow> 'r world
     \<Rightarrow> ('e exn + 's) \<times> 'r world"
where
  "connect_to_salesforce env username password security_token domain w =
     except_log env ''Error connecting to Salesforce: ''
       (let w1 = logger INFO (''Connecting to Salesforce with user '' @ username) w in
        case Salesforce env username password security_token domain w1 of
          (Inl e, w2) \<Rightarrow> (Inl (ClientError e), w2)
        | (Inr sf, w2) \<Rightarrow> (Inr sf, logger INFO ''Successfully connected to Salesforce'' w2))"

definition create_permission_set ::
  "('s, 'r, 'e) env \<Rightarrow> 's \<Rightarrow> string \<Rightarrow> string \<Rightarrow> 'r world \<Rightarrow> ('e exn + pyval) \<times> 'r world"
where
  "create_permission_set env sf object_name record_type w =
     except_log env ''Error creating permission set: ''
       (let permission_set_name = object_name @ ''_'' @ record_type @ ''_Permissions'';
            w1 = logger INFO (''Creating permission set '' @ permission_set_name) w
        in
        case create env sf PermissionSet
               [(''Name'', PyStr permission_set_name),
                (''Label'', PyStr (object_name @ '' '' @ record_type @ '' Permissions'')),
                (''Description'',
                   PyStr (''Permission set for '' @ object_name @ '' with record type ''
                            @ record_type))]
               w1 of
          (Inl e, w2) \<Rightarrow> (Inl (ClientError e), w2)
        | (Inr result, w2) \<Rightarrow>
            if truthy (dict_get result ''success'')
            then (Inr (dict_get result ''id''),
                  logger INFO
                    (''Permission set '' @ permission_set_name @ '' successfully created'') w2)
            else (Inl (Exception (''Failed to create permission set: ''
                                    @ value_str env (dict_get result ''errors''))), w2))"

text \<open>The dictionary built for one field inside the loop of \<open>set_field_permissions\<close>.\<close>

definition field_permission :: "string \<Rightarrow> string \<Rightarrow> string \<Rightarrow> string \<Rightarrow> pydict" where
  "field_permission permission_set_name object_name access_level field =
     [(''Field'', PyStr (object_name @ ''.'' @ field)),
      (''PermissionsRead'', PyBool (if access_level \<in> set [''read'', ''edit''] then True else False)),
      (''PermissionsEdit'', PyBool (if access_level = ''edit'' then True else False)),
      (''ParentId'', PyStr permission_set_name)]"

text \<open>
  The \<open>for field in fields\<close> loop: one create call per field, stopping at the first call
  that raises or whose payload does not report success. (The list is called \<open>field_list\<close>
  below, \<open>fields\<close> being taken by the record package.)
\<close>

fun set_fields_loop ::
  "('s, 'r, 'e) env \<Rightarrow> 's \<Rightarrow> string \<Rightarrow> string \<Rightarrow> string \<Rightarrow> string list \<Rightarrow> 'r world
     \<Rightarrow> ('e exn + unit) \<times> 'r world"
where
  "set_fields_loop env sf permission_set_name object_name access_level [] w = (Inr (), w)"
| "set_fields_loop env sf permission_set_name object_name access_level (field # rest) w =
     (case create env sf FieldPermissions
             (field_permission permission_set_name object_name access_level field) w of
        (Inl e, w1) \<Rightarrow> (Inl (ClientError e), w1)
      | (Inr result, w1) \<Rightarrow>
          if truthy (dict_get result ''success'')
          then set_fields_loop env sf permission_set_name object_name access_level rest
                 (logger DEBUG (''Permissions for field '' @ field @ '' successfully set'') w1)
          else (Inl (Exception (''Failed to set permissions for field '' @ field @ '': ''
                                  @ value_str env (dict_get result ''errors''))), w1))"

definition set_field_permissions ::
  "('s, 'r, 'e) env \<Rightarrow> 's \<Rightarrow> string \<Rightarrow> string \<Rightarrow> string list \<Rightarrow> string \<Rightarrow> 'r world
     \<Rightarrow> ('e exn + unit) \<times> 'r world"
where
  "set_field_permissions env sf permission_set_name object_name field_list access_level w =
     (if access_level \<notin> set [''read'', ''edit'']
      then (Inl (ValueError (''access_level must be either '' @ [CHR 0x27] @ ''read''
                               @ [CHR 0x27] @ '' or '' @ [CHR 0x27] @ ''edit'' @ [CHR 0x27])), w)
      else
        except_log env ''Error setting permissions: ''
          (let w1 = logger INFO (''Setting permissions for '' @ str_nat (length field_list)
                                   @ '' fields in object '' @ object_name) w in
           case set_fields_loop env sf permission_set_name object_name access_level field_list w1 of
             (Inl e, w2) \<Rightarrow> (Inl e, w2)
           | (Inr u, w2) \<Rightarrow>
               (Inr u, logger INFO ''Permissions for all fields successfully set'' w2)))"

definition create_edit_permission_set ::
  "('s, 'r, 'e) env \<Rightarrow> 's \<Rightarrow> string \<Rightarrow> 'r world \<Rightarrow> ('e exn + pyval) \<times> 'r world"
where
  "create_edit_permission_set env sf object_name w =
     create_permission_set env sf object_name ''edit'' w"

subsection \<open>Observing a run\<close>

text \<open>The remote calls issued between a world and a later one, oldest first.\<close>

definition issued :: "'r world \<Rightarrow> 'r world \<Rightarrow> call list" where
  "issued w w' = drop (length (calls w)) (calls w')"

subsection \<open>A test double\<close>

text \<open>
  A stand-in for the client, used to run the functions on concrete inputs. Its remote
  state counts the create calls served so far; the \<open>k\<close>-th create call (counting from 1)
  answers with a payload that reports failure, every other one with a payload that
  reports success and carries an id; \<open>k = 0\<close> never fails. Logging in succeeds with the
  password \<open>secret\<close> and raises otherwise. \<open>mock_str\<close> stands for \<open>str\<close>: it is Python's
  \<open>str\<close> on \<open>None\<close>, booleans, strings and the empty list, and a placeholder elsewhere.
\<close>

fun mock_str :: "pyval \<Rightarrow> string" where
  "mock_str PyNone = ''None''"
| "mock_str (PyBool b) = (if b then ''True'' else ''False'')"
| "mock_str (PyStr s) = s"
| "mock_str (PyList []) = ''[]''"
| "mock_str v = ''<value>''"

definition mock_env :: "nat \<Rightarrow> (unit, nat, string) env" where
  "mock_env k =
     \<lparr>salesforce_login = (\<lambda>username password security_token domain n.
          (if password = ''secret'' then Inr () else Inl ''INVALID_LOGIN'', n)),
      sobject_create = (\<lambda>sf ty payload n.
          (Inr (if Suc n = k
                then [(''success'', PyBool False), (''errors'', PyStr ''DUPLICATE_VALUE'')]
                else [(''success'', PyBool True), (''id'', PyStr ''0PS000000000001'')]),
           Suc n)),
      exn_is_Exception = (\<lambda>e. True),
      exn_str = (\<lambda>e. e),
      value_str = mock_str\<rparr>"

definition world0 :: "nat world" where
  "world0 = \<lparr>remote = 0, calls = [], logged = []\<rparr>"

section \<open>Properties\<close>

subsection \<open>Logging and the handler leave the remote service alone\<close>

lemma calls_logger [simp]: "calls (logger lvl msg w) = calls w"
  by (simp add: logger_def)

lemma remote_logger [simp]: "remote (logger lvl msg w) = remote w"
  by (simp add: logger_def)

lemma fst_except_log [simp]: "fst (except_log env intro out) = fst out"
  by (cases out) (auto simp: except_log_def split: sum.splits)

lemma calls_except_log [simp]: "calls (snd (except_log env intro out)) = calls (snd out)"
  by (cases out) (auto simp: except_log_def split: sum.splits)

lemma remote_except_log [simp]: "remote (snd (except_log env intro out)) = remote (snd out)"
  by (cases out) (auto simp: except_log_def split: sum.splits)

lemma issued_append [simp]: "calls w' = calls w @ cs \<Longrightarrow> issued w w' = cs"
  by (simp add: issued_def)

subsection \<open>One create call\<close>

lemma calls_create [simp]:
  "calls (snd (create env sf ty payload w)) = calls w @ [Create ty payload]"
  by (simp add: create_def split: prod.splits)

lemma create_calls_world:
  "create env sf ty payload w = (res, w1) \<Longrightarrow> calls w1 = calls w @ [Create ty payload]"
  using calls_create [of env sf ty payload w] by simp

lemma create_eq:
  "sobject_create env sf ty payload (remote w) = (res, r') \<Longrightarrow>
   create env sf ty payload w = (res, w\<lparr>remote := r', calls := calls w @ [Create ty payload]\<rparr>)"
  by (simp add: create_def)

lemma create_fst [simp]:
  "fst (create env sf ty payload w) = fst (sobject_create env sf ty payload (remote w))"
  by (simp add: create_def split: prod.splits)

lemma create_remote [simp]:
  "remote (snd (create env sf ty payload w)) = snd (sobject_create env sf ty payload (remote w))"
  by (simp add: create_def split: prod.splits)

subsection \<open>Logging in and creating a permission set\<close>

lemma calls_Salesforce [simp]:
  "calls (snd (Salesforce env username password security_token domain w)) =
     calls w @ [Authenticate username password security_token domain]"
  by (simp add: Salesforce_def split: prod.splits)

lemma fst_Salesforce [simp]:
  "fst (Salesforce env username password security_token domain w) =
     fst (salesforce_login env username password security_token domain (remote w))"
  by (simp add: Salesforce_def split: prod.splits)

lemma remote_Salesforce [simp]:
  "remote (snd (Salesforce env username password security_token domain w)) =
     snd (salesforce_login env username password security_token domain (remote w))"
  by (simp add: Salesforce_def split: prod.splits)

text \<open>\<open>connect_to_salesforce\<close> and \<open>create_permission_set\<close> with the pair returned by the
  client taken apart.\<close>

lemma connect_to_salesforce_unfold:
  "connect_to_salesforce env username password security_token domain w =
     except_log env ''Error connecting to Salesforce: ''
       (case fst (Salesforce env username password security_token domain
                    (logger INFO (''Connecting to Salesforce with user '' @ username) w)) of
          Inl e \<Rightarrow> (Inl (ClientError e),
                    snd (Salesforce env username password security_token domain
                          (logger INFO (''Connecting to Salesforce with user '' @ username) w)))
        | Inr sf \<Rightarrow> (Inr sf, logger INFO ''Successfully connected to Salesforce''
                    (snd (Salesforce env username password security_token domain
                          (logger INFO (''Connecting to Salesforce with user '' @ username) w)))))"
  unfolding connect_to_salesforce_def Let_def
  by (cases "Salesforce env username password security_token domain
                    (logger INFO (''Connecting to Salesforce with user '' @ username) w)")
     (simp split: sum.splits)

lemma fst_connect_to_salesforce:
  "fst (connect_to_salesforce env username password security_token domain w) =
     (case fst (salesforce_login env username password security_token domain (remote w)) of
        Inl e \<Rightarrow> Inl (ClientError e)
      | Inr sf \<Rightarrow> Inr sf)"
  by (simp add: connect_to_salesforce_unfold split: sum.splits)

lemma calls_connect_to_salesforce:
  "calls (snd (connect_to_salesforce env username password security_token domain w)) =
     calls w @ [Authenticate username password security_token domain]"
  by (simp add: connect_to_salesforce_unfold split: sum.splits)

lemma remote_connect_to_salesforce:
  "remote (snd (connect_to_salesforce env username password security_token domain w)) =
     snd (salesforce_login env username password security_token domain (remote w))"
  by (simp add: connect_to_salesforce_unfold split: sum.splits)

lemma create_permission_set_unfold:
  "create_permission_set env sf object_name record_type w =
     except_log env ''Error creating permission set: ''
       (case fst (create env sf PermissionSet P W) of
          Inl e \<Rightarrow> (Inl (ClientError e), snd (create env sf PermissionSet P W))
        | Inr result \<Rightarrow>
            if truthy (dict_get result ''success'')
            then (Inr (dict_get result ''id''),
                  logger INFO
                    (''Permission set '' @ (object_name @ ''_'' @ record_type @ ''_Permissions'')
                       @ '' successfully created'')
                    (snd (create env sf PermissionSet P W)))
            else (Inl (Exception (''Failed to create permission set: ''
                                    @ value_str env (dict_get result ''errors''))),
                  snd (create env sf PermissionSet P W)))"
  if "P = [(''Name'', PyStr (object_name @ ''_'' @ record_type @ ''_Permissions'')),
           (''Label'', PyStr (object_name @ '' '' @ record_type @ '' Permissions'')),
           (''Description'',
              PyStr (''Permission set for '' @ object_name @ '' with record type ''
                       @ record_type))]"
    and "W = logger INFO (''Creating permission set ''
                            @ (object_name @ ''_'' @ record_type @ ''_Permissions'')) w"
  unfolding create_permission_set_def Let_def that
  by (cases "create env sf PermissionSet
               [(''Name'', PyStr (object_name @ ''_'' @ record_type @ ''_Permissions'')),
                (''Label'', PyStr (object_name @ '' '' @ record_type @ '' Permissions'')),
                (''Description'',
                   PyStr (''Permission set for '' @ object_name @ '' with record type ''
                            @ record_type))]
               (logger INFO (''Creating permission set ''
                            @ (object_name @ ''_'' @ record_type @ ''_Permissions'')) w)")
     (simp split: sum.splits)

lemma fst_create_permission_set:
  "fst (create_permission_set env sf object_name record_type w) =
     (case fst (sobject_create env sf PermissionSet
                  [(''Name'', PyStr (object_name @ ''_'' @ record_type @ ''_Permissions'')),
                   (''Label'', PyStr (object_name @ '' '' @ record_type @ '' Permissions'')),
                   (''Description'',
                      PyStr (''Permission set for '' @ object_name @ '' with record type ''
                               @ record_type))]
                  (remote w)) of
        Inl e \<Rightarrow> Inl (ClientError e)
      | Inr result \<Rightarrow>
          if truthy (dict_get result ''success'') then Inr (dict_get result ''id'')
          else Inl (Exception (''Failed to create permission set: ''
                                 @ value_str env (dict_get result ''errors''))))"
  by (simp add: create_permission_set_unfold [OF refl refl] split: sum.splits)

lemma calls_create_permission_set:
  "calls (snd (create_permission_set env sf object_name record_type w)) =
     calls w @
     [Create PermissionSet
        [(''Name'', PyStr (object_name @ ''_'' @ record_type @ ''_Permissions'')),
         (''Label'', PyStr (object_name @ '' '' @ record_type @ '' Permissions'')),
         (''Description'',
            PyStr (''Permission set for '' @ object_name @ '' with record type ''
                     @ record_type))]]"
  by (simp add: create_permission_set_unfold [OF refl refl] split: sum.splits)

subsection \<open>The trace of the loop\<close>

text \<open>The loop issues the create calls of a prefix of the field list, in list order.\<close>

lemma set_fields_loop_calls:
  "\<exists>n\<le>length fs. calls (snd (set_fields_loop env sf ps obj al fs w)) =
     calls w @ map (\<lambda>f. Create FieldPermissions (field_permission ps obj al f)) (take n fs)"
proof (induction fs arbitrary: w)
  case Nil
  then show ?case by simp
next
  case (Cons f fs)
  let ?mk = "\<lambda>f. Create FieldPermissions (field_permission ps obj al f)"
  let ?run = "\<lambda>fs w. calls (snd (set_fields_loop env sf ps obj al fs w))"
  obtain res w1
    where c: "create env sf FieldPermissions (field_permission ps obj al f) w = (res, w1)"
    by (cases "create env sf FieldPermissions (field_permission ps obj al f) w")
  have w1: "calls w1 = calls w @ [?mk f]"
    using c by (rule create_calls_world)
  show ?case
  proof (cases res)
    case (Inl e)
    with c w1 have "?run (f # fs) w = calls w @ map ?mk (take 1 (f # fs))"
      by simp
    then show ?thesis by (intro exI [of _ 1]) simp
  next
    case (Inr result)
    show ?thesis
    proof (cases "truthy (dict_get result ''success'')")
      case False
      with c w1 Inr have "?run (f # fs) w = calls w @ map ?mk (take 1 (f # fs))"
        by simp
      then show ?thesis by (intro exI [of _ 1]) simp
    next
      case True
      let ?w2 = "logger DEBUG (''Permissions for field '' @ f @ '' successfully set'') w1"
      from Cons.IH [of ?w2] obtain n where n: "n \<le> length fs"
        and tr: "?run fs ?w2 = calls ?w2 @ map ?mk (take n fs)"
        by blast
      from c Inr True tr w1
      have "?run (f # fs) w = calls w @ map ?mk (take (Suc n) (f # fs))"
        by simp
      with n show ?thesis by (intro exI [of _ "Suc n"]) simp
    qed
  qed
qed

text \<open>When the loop ends normally it has issued the create call of every field.\<close>

lemma set_fields_loop_ok:
  "fst (set_fields_loop env sf ps obj al fs w) = Inr u \<Longrightarrow>
   calls (snd (set_fields_loop env sf ps obj al fs w)) =
     calls w @ map (\<lambda>f. Create FieldPermissions (field_permission ps obj al f)) fs"
proof (induction fs arbitrary: w)
  case Nil
  then show ?case by simp
next
  case (Cons f fs)
  then show ?case
    by (auto split: prod.splits sum.splits if_splits dest: create_calls_world)
qed

text \<open>A prefix that ends normally hands its world to the rest of the list.\<close>

lemma set_fields_loop_append:
  "set_fields_loop env sf ps obj al pre w = (Inr u, w1) \<Longrightarrow>
   set_fields_loop env sf ps obj al (pre @ post) w = set_fields_loop env sf ps obj al post w1"
  by (induction pre arbitrary: w) (auto split: prod.splits sum.splits if_splits)

text \<open>A list of one field: its create call is issued, whatever the answer.\<close>

lemma set_fields_loop_single:
  "calls (snd (set_fields_loop env sf ps obj al [f] w)) =
     calls w @ [Create FieldPermissions (field_permission ps obj al f)]"
  by (auto split: prod.splits sum.splits dest: create_calls_world)

text \<open>
  The log has no part in the control flow: two worlds with the same remote state and the
  same trace give the same result, the same remote state and the same trace.
\<close>

lemma set_fields_loop_logged:
  "remote w' = remote w \<Longrightarrow> calls w' = calls w \<Longrightarrow>
   fst (set_fields_loop env sf ps obj al fs w') = fst (set_fields_loop env sf ps obj al fs w)
   \<and> remote (snd (set_fields_loop env sf ps obj al fs w')) =
       remote (snd (set_fields_loop env sf ps obj al fs w))
   \<and> calls (snd (set_fields_loop env sf ps obj al fs w')) =
       calls (snd (set_fields_loop env sf ps obj al fs w))"
proof (induction fs arbitrary: w w')
  case Nil
  then show ?case by simp
next
  case (Cons f fs)
  let ?p = "field_permission ps obj al f"
  obtain res r1 where sc: "sobject_create env sf FieldPermissions ?p (remote w) = (res, r1)"
    by (cases "sobject_create env sf FieldPermissions ?p (remote w)")
  let ?v = "w\<lparr>remote := r1, calls := calls w @ [Create FieldPermissions ?p]\<rparr>"
  let ?v' = "w'\<lparr>remote := r1, calls := calls w' @ [Create FieldPermissions ?p]\<rparr>"
  have c: "create env sf FieldPermissions ?p w = (res, ?v)"
    using sc by (rule create_eq)
  have c': "create env sf FieldPermissions ?p w' = (res, ?v')"
    using sc Cons.prems by (simp add: create_eq)
  show ?case
  proof (cases res)
    case (Inl e)
    with c c' Cons.prems show ?thesis by simp
  next
    case (Inr result)
    show ?thesis
    proof (cases "truthy (dict_get result ''success'')")
      case False
      with c c' Inr Cons.prems show ?thesis by simp
    next
      case True
      let ?m = "''Permissions for field '' @ f @ '' successfully set''"
      have "remote (logger DEBUG ?m ?v') = remote (logger DEBUG ?m ?v)"
        and "calls (logger DEBUG ?m ?v') = calls (logger DEBUG ?m ?v)"
        using Cons.prems by simp_all
      from Cons.IH [OF this] c c' Inr True show ?thesis by simp
    qed
  qed
qed

text \<open>After validation, \<open>set_field_permissions\<close> is its loop, as far as the result and the
  trace go.\<close>

lemma calls_set_field_permissions:
  "access_level \<in> set [''read'', ''edit''] \<Longrightarrow>
   calls (snd (set_field_permissions env sf ps obj fs access_level w)) =
   calls (snd (set_fields_loop env sf ps obj access_level fs
     (logger INFO (''Setting permissions for '' @ str_nat (length fs)
                     @ '' fields in object '' @ obj) w)))"
  by (simp add: set_field_permissions_def Let_def split: prod.splits sum.splits)

lemma remote_set_field_permissions:
  "access_level \<in> set [''read'', ''edit''] \<Longrightarrow>
   remote (snd (set_field_permissions env sf ps obj fs access_level w)) =
   remote (snd (set_fields_loop env sf ps obj access_level fs
     (logger INFO (''Setting permissions for '' @ str_nat (length fs)
                     @ '' fields in object '' @ obj) w)))"
  by (simp add: set_field_permissions_def Let_def split: prod.splits sum.splits)

lemma fst_set_field_permissions:
  "access_level \<in> set [''read'', ''edit''] \<Longrightarrow>
   fst (set_field_permissions env sf ps obj fs access_level w) =
   fst (set_fields_loop env sf ps obj access_level fs
     (logger INFO (''Setting permissions for '' @ str_nat (length fs)
                     @ '' fields in object '' @ obj) w))"
  by (simp add: set_field_permissions_def Let_def split: prod.splits sum.splits)

text \<open>Every call \<open>set_field_permissions\<close> issues is the create call of a field, and the calls
  are those of a prefix of the field list, in list order.\<close>

lemma set_field_permissions_trace:
  assumes "access_level = ''read'' \<or> access_level = ''edit''"
  shows "\<exists>n\<le>length fs.
           calls (snd (set_field_permissions env sf ps obj fs access_level w)) =
             calls w @ map (\<lambda>f. Create FieldPermissions (field_permission ps obj access_level f))
                         (take n fs)"
proof -
  from assms have v: "access_level \<in> set [''read'', ''edit'']" by auto
  show ?thesis
    unfolding calls_set_field_permissions [OF v]
    using set_fields_loop_calls
      [of fs env sf ps obj access_level
          "logger INFO (''Setting permissions for '' @ str_nat (length fs)
                     @ '' fields in object '' @ obj) w"]
    by simp
qed

text \<open>The definitions a run on a concrete input unfolds.\<close>

lemmas run_defs =
  set_field_permissions_def except_log_def create_def logger_def mock_env_def world0_def
  field_permission_def issued_def dict_get_def

subsection \<open>Three runs against the test double\<close>

text \<open>The second of three fields is refused: result, remote state, trace and log.\<close>

lemma set_field_permissions_example:
  "set_field_permissions (mock_env 2) () ''0PS'' ''Contact'' [''Email'', ''Phone'', ''Fax'']
     ''read'' world0 =
   (Inl (Exception ''Failed to set permissions for field Phone: DUPLICATE_VALUE''),
    \<lparr>remote = 2,
     calls =
       [Create FieldPermissions
          [(''Field'', PyStr ''Contact.Email''), (''PermissionsRead'', PyBool True),
           (''PermissionsEdit'', PyBool False), (''ParentId'', PyStr ''0PS'')],
        Create FieldPermissions
          [(''Field'', PyStr ''Contact.Phone''), (''PermissionsRead'', PyBool True),
           (''PermissionsEdit'', PyBool False), (''ParentId'', PyStr ''0PS'')]],
     logged =
       [(INFO, ''Setting permissions for 3 fields in object Contact''),
        (DEBUG, ''Permissions for field Email successfully set''),
        (ERROR, ''Error setting permissions: Failed to set permissions for field Phone: DUPLICATE_VALUE'')]\<rparr>)"
  by (simp add: run_defs str_nat.simps digit_char_def)

text \<open>A login that is refused, and a permission set that is created.\<close>

lemma connect_to_salesforce_example:
  "connect_to_salesforce (mock_env 0) ''admin@example.com'' ''wrong'' ''tok'' ''login'' world0 =
   (Inl (ClientError ''INVALID_LOGIN''),
    \<lparr>remote = 0,
     calls = [Authenticate ''admin@example.com'' ''wrong'' ''tok'' ''login''],
     logged =
       [(INFO, ''Connecting to Salesforce with user admin@example.com''),
        (ERROR, ''Error connecting to Salesforce: INVALID_LOGIN'')]\<rparr>)"
  by (simp add: connect_to_salesforce_def Salesforce_def except_log_def logger_def mock_env_def
      world0_def)

lemma create_permission_set_example:
  "create_permission_set (mock_env 0) () ''Account'' ''edit'' world0 =
   (Inr (PyStr ''0PS000000000001''),
    \<lparr>remote = 1,
     calls =
       [Create PermissionSet
          [(''Name'', PyStr ''Account_edit_Permissions''),
           (''Label'', PyStr ''Account edit Permissions''),
           (''Description'', PyStr ''Permission set for Account with record type edit'')]],
     logged =
       [(INFO, ''Creating permission set Account_edit_Permissions''),
        (INFO, ''Permission set Account_edit_Permissions successfully created'')]\<rparr>)"
  by (simp add: create_permission_set_def create_def except_log_def logger_def mock_env_def
      world0_def dict_get_def Let_def)

subsection \<open>Validation of the access level\<close>

text \<open>
  Claim C2. For every input whose \<open>access_level\<close> is neither \<open>read\<close> nor \<open>edit\<close>,
  \<open>set_field_permissions\<close> raises \<open>ValueError\<close> before anything else happens: the world it
  leaves is the world it was given, so no remote call has been issued, nothing has
  changed on the remote side and nothing has been logged.
\<close>

theorem set_field_permissions_invalid_access_level:
  assumes "access_level \<noteq> ''read''" and "access_level \<noteq> ''edit''"
  shows "set_field_permissions env sf ps obj fs access_level w =
           (Inl (ValueError (''access_level must be either '' @ [CHR 0x27] @ ''read''
                               @ [CHR 0x27] @ '' or '' @ [CHR 0x27] @ ''edit'' @ [CHR 0x27])), w)
         \<and> issued w (snd (set_field_permissions env sf ps obj fs access_level w)) = []"
  using assms by (simp add: set_field_permissions_def)

theorem set_field_permissions_invalid_access_level_witness:
  "''bogus'' \<noteq> ''read'' \<and> ''bogus'' \<noteq> ''edit''
   \<and> fst (set_field_permissions (mock_env 0) () ''0PS'' ''Contact'' [''Email'', ''Phone''] ''bogus''
        world0) =
       Inl (ValueError (''access_level must be either '' @ [CHR 0x27] @ ''read''
                               @ [CHR 0x27] @ '' or '' @ [CHR 0x27] @ ''edit'' @ [CHR 0x27]))
   \<and> snd (set_field_permissions (mock_env 0) () ''0PS'' ''Contact'' [''Email'', ''Phone''] ''bogus''
        world0) = world0
   \<and> issued world0
       (snd (set_field_permissions (mock_env 0) () ''0PS'' ''Contact'' [''Email'', ''Phone'']
          ''bogus'' world0)) = []"
proof -
  have a: "''bogus'' \<noteq> ''read''" and b: "''bogus'' \<noteq> ''edit''" by simp_all
  show ?thesis
    using a b set_field_permissions_invalid_access_level
      [OF a b, of "mock_env 0" "()" "''0PS''" "''Contact''" "[''Email'', ''Phone'']" world0]
    by simp
qed

subsection \<open>The empty field list\<close>

text \<open>
  Claim C10. With an empty field list and a valid \<open>access_level\<close>, \<open>set_field_permissions\<close>
  returns normally (\<open>None\<close>, the value \<open>()\<close> here), issues no remote call and leaves the
  remote state as it was.
\<close>

theorem set_field_permissions_no_fields:
  assumes "access_level = ''read'' \<or> access_level = ''edit''"
  shows "fst (set_field_permissions env sf ps obj [] access_level w) = Inr ()
         \<and> issued w (snd (set_field_permissions env sf ps obj [] access_level w)) = []
         \<and> remote (snd (set_field_permissions env sf ps obj [] access_level w)) = remote w"
proof -
  from assms have v: "access_level \<in> set [''read'', ''edit'']" by auto
  show ?thesis
    by (simp add: fst_set_field_permissions [OF v] calls_set_field_permissions [OF v]
        remote_set_field_permissions [OF v])
qed

theorem set_field_permissions_no_fields_witness:
  "(''read'' = ''read'' \<or> ''read'' = ''edit'')
   \<and> fst (set_field_permissions (mock_env 1) () ''0PS'' ''Contact'' [] ''read'' world0) = Inr ()
   \<and> issued world0 (snd (set_field_permissions (mock_env 1) () ''0PS'' ''Contact'' [] ''read'' world0)) = []
   \<and> remote (snd (set_field_permissions (mock_env 1) () ''0PS'' ''Contact'' [] ''read'' world0)) = 0"
proof -
  have a: "''read'' = ''read'' \<or> ''read'' = ''edit''" by simp
  show ?thesis
    using set_field_permissions_no_fields [OF a, of "mock_env 1" "()" "''0PS''" "''Contact''" world0]
    by (simp add: world0_def)
qed

subsection \<open>The flags of a field permission\<close>

text \<open>
  Claim C6. Whatever the field list, when \<open>access_level\<close> is \<open>read\<close> every remote call that
  \<open>set_field_permissions\<close> issues is a field-permission create call whose payload has
  \<open>PermissionsRead\<close> true and \<open>PermissionsEdit\<close> false. (The first conjunct says that
  \<open>issued\<close> is the whole of what the run added to the trace.)
\<close>

theorem set_field_permissions_read_flags:
  "calls (snd (set_field_permissions env sf ps obj fs ''read'' w)) =
     calls w @ issued w (snd (set_field_permissions env sf ps obj fs ''read'' w))
   \<and> (\<forall>c\<in>set (issued w (snd (set_field_permissions env sf ps obj fs ''read'' w))).
        \<exists>payload. c = Create FieldPermissions payload
          \<and> dict_get payload ''PermissionsRead'' = PyBool True
          \<and> dict_get payload ''PermissionsEdit'' = PyBool False)"
proof -
  let ?w' = "snd (set_field_permissions env sf ps obj fs ''read'' w)"
  let ?mk = "\<lambda>f. Create FieldPermissions (field_permission ps obj ''read'' f)"
  obtain n where tr: "calls ?w' = calls w @ map ?mk (take n fs)"
    using set_field_permissions_trace [of "''read''" fs env sf ps obj w] by auto
  then have iss: "issued w ?w' = map ?mk (take n fs)"
    by (rule issued_append)
  have "\<exists>payload. ?mk f = Create FieldPermissions payload
          \<and> dict_get payload ''PermissionsRead'' = PyBool True
          \<and> dict_get payload ''PermissionsEdit'' = PyBool False" for f
    by (simp add: field_permission_def dict_get_def)
  with tr iss show ?thesis by auto
qed

theorem set_field_permissions_read_flags_witness:
  "Create FieldPermissions
     [(''Field'', PyStr ''Contact.Phone''), (''PermissionsRead'', PyBool True),
      (''PermissionsEdit'', PyBool False), (''ParentId'', PyStr ''0PS'')]
     \<in> set (issued world0 (snd (set_field_permissions (mock_env 0) () ''0PS'' ''Contact''
               [''Email'', ''Phone''] ''read'' world0)))
   \<and> (\<exists>payload.
         Create FieldPermissions
           [(''Field'', PyStr ''Contact.Phone''), (''PermissionsRead'', PyBool True),
            (''PermissionsEdit'', PyBool False), (''ParentId'', PyStr ''0PS'')]
         = Create FieldPermissions payload
         \<and> dict_get payload ''PermissionsRead'' = PyBool True
         \<and> dict_get payload ''PermissionsEdit'' = PyBool False)"
proof -
  let ?c = "Create FieldPermissions
     [(''Field'', PyStr ''Contact.Phone''), (''PermissionsRead'', PyBool True),
      (''PermissionsEdit'', PyBool False), (''ParentId'', PyStr ''0PS'')]"
  have mem: "?c \<in> set (issued world0 (snd (set_field_permissions (mock_env 0) () ''0PS''
               ''Contact'' [''Email'', ''Phone''] ''read'' world0)))"
    by (simp add: run_defs)
  from set_field_permissions_read_flags
         [of "mock_env 0" "()" "''0PS''" "''Contact''" "[''Email'', ''Phone'']" world0]
  have "\<forall>c\<in>set (issued world0 (snd (set_field_permissions (mock_env 0) () ''0PS''
               ''Contact'' [''Email'', ''Phone''] ''read'' world0))).
        \<exists>payload. c = Create FieldPermissions payload
          \<and> dict_get payload ''PermissionsRead'' = PyBool True
          \<and> dict_get payload ''PermissionsEdit'' = PyBool False"
    by (rule conjunct2)
  from this mem have "\<exists>payload. ?c = Create FieldPermissions payload
          \<and> dict_get payload ''PermissionsRead'' = PyBool True
          \<and> dict_get payload ''PermissionsEdit'' = PyBool False"
    by (rule bspec)
  with mem show ?thesis by (rule conjI)
qed

text \<open>
  Claim C8. In every call of \<open>set_field_permissions\<close> that passes validation, each payload
  created has \<open>PermissionsRead\<close> true, for \<open>read\<close> and for \<open>edit\<close> alike, and has
  \<open>PermissionsEdit\<close> true exactly when \<open>access_level\<close> is \<open>edit\<close>: \<open>edit\<close> sets both flags,
  \<open>read\<close> sets read without edit.
\<close>

theorem set_field_permissions_flags:
  assumes "access_level = ''read'' \<or> access_level = ''edit''"
  shows "\<forall>c\<in>set (issued w (snd (set_field_permissions env sf ps obj fs access_level w))).
           \<exists>payload. c = Create FieldPermissions payload
             \<and> dict_get payload ''PermissionsRead'' = PyBool True
             \<and> dict_get payload ''PermissionsEdit'' = PyBool (access_level = ''edit'')"
proof -
  let ?w' = "snd (set_field_permissions env sf ps obj fs access_level w)"
  let ?mk = "\<lambda>f. Create FieldPermissions (field_permission ps obj access_level f)"
  obtain n where tr: "calls ?w' = calls w @ map ?mk (take n fs)"
    using set_field_permissions_trace [OF assms, of fs env sf ps obj w] by auto
  then have iss: "issued w ?w' = map ?mk (take n fs)"
    by (rule issued_append)
  have "\<exists>payload. ?mk f = Create FieldPermissions payload
          \<and> dict_get payload ''PermissionsRead'' = PyBool True
          \<and> dict_get payload ''PermissionsEdit'' = PyBool (access_level = ''edit'')" for f
    using assms by (auto simp: field_permission_def dict_get_def)
  with iss show ?thesis by auto
qed

theorem set_field_permissions_flags_witness:
  "(''edit'' = ''read'' \<or> ''edit'' = ''edit'')
   \<and> Create FieldPermissions
     [(''Field'', PyStr ''Contact.Email''), (''PermissionsRead'', PyBool True),
      (''PermissionsEdit'', PyBool True), (''ParentId'', PyStr ''0PS'')]
     \<in> set (issued world0 (snd (set_field_permissions (mock_env 2) () ''0PS'' ''Contact''
               [''Email'', ''Phone'', ''Fax''] ''edit'' world0)))
   \<and> (\<exists>payload.
         Create FieldPermissions
           [(''Field'', PyStr ''Contact.Email''), (''PermissionsRead'', PyBool True),
            (''PermissionsEdit'', PyBool True), (''ParentId'', PyStr ''0PS'')]
         = Create FieldPermissions payload
         \<and> dict_get payload ''PermissionsRead'' = PyBool True
         \<and> dict_get payload ''PermissionsEdit'' = PyBool (''edit'' = ''edit''))"
proof -
  let ?c = "Create FieldPermissions
     [(''Field'', PyStr ''Contact.Email''), (''PermissionsRead'', PyBool True),
      (''PermissionsEdit'', PyBool True), (''ParentId'', PyStr ''0PS'')]"
  have lvl: "''edit'' = ''read'' \<or> ''edit'' = ''edit''" by simp
  have mem: "?c \<in> set (issued world0 (snd (set_field_permissions (mock_env 2) () ''0PS''
               ''Contact'' [''Email'', ''Phone'', ''Fax''] ''edit'' world0)))"
    by (simp add: run_defs)
  from set_field_permissions_flags
         [OF lvl, of world0 "mock_env 2" "()" "''0PS''" "''Contact''" "[''Email'', ''Phone'', ''Fax'']"]
    mem
  have "\<exists>payload. ?c = Create FieldPermissions payload
          \<and> dict_get payload ''PermissionsRead'' = PyBool True
          \<and> dict_get payload ''PermissionsEdit'' = PyBool (''edit'' = ''edit'')"
    by (rule bspec)
  with lvl mem show ?thesis by (intro conjI)
qed

subsection \<open>The calls for two fields\<close>

text \<open>
  Claim C1, as the spec states it: for \<open>psId\<close>, \<open>Contact\<close>, \<open>["Email", "Phone"]\<close> and \<open>edit\<close>,
  \<open>set_field_permissions\<close> issues exactly two create calls. On the session below the first
  create call answers \<open>success: false\<close>: the loop raises at once, and the call for
  \<open>Contact.Phone\<close> is never issued. One call, not two.
\<close>

theorem set_field_permissions_contact_edit_counterexample:
  "issued world0 (snd (set_field_permissions (mock_env 1) () ''0PS'' ''Contact''
         [''Email'', ''Phone''] ''edit'' world0)) =
     [Create FieldPermissions
        [(''Field'', PyStr ''Contact.Email''), (''PermissionsRead'', PyBool True),
         (''PermissionsEdit'', PyBool True), (''ParentId'', PyStr ''0PS'')]]
   \<and> issued world0 (snd (set_field_permissions (mock_env 1) () ''0PS'' ''Contact''
         [''Email'', ''Phone''] ''edit'' world0)) \<noteq>
     [Create FieldPermissions
        [(''Field'', PyStr ''Contact.Email''), (''PermissionsRead'', PyBool True),
         (''PermissionsEdit'', PyBool True), (''ParentId'', PyStr ''0PS'')],
      Create FieldPermissions
        [(''Field'', PyStr ''Contact.Phone''), (''PermissionsRead'', PyBool True),
         (''PermissionsEdit'', PyBool True), (''ParentId'', PyStr ''0PS'')]]
   \<and> fst (set_field_permissions (mock_env 1) () ''0PS'' ''Contact''
         [''Email'', ''Phone''] ''edit'' world0) =
     Inl (Exception ''Failed to set permissions for field Email: DUPLICATE_VALUE'')"
  by (simp add: run_defs)

text \<open>
  Claim C1, amended: when the create call for \<open>Contact.Email\<close> returns a payload that
  reports success, \<open>set_field_permissions\<close> with \<open>psId\<close>, \<open>Contact\<close>, \<open>["Email", "Phone"]\<close>
  and \<open>edit\<close> issues exactly two remote calls, both field-permission create calls, in
  list order: the first with \<open>Field = Contact.Email\<close>, the second with
  \<open>Field = Contact.Phone\<close>, each with \<open>PermissionsRead\<close> true, \<open>PermissionsEdit\<close> true and
  \<open>ParentId = psId\<close>. Nothing is asked of the second call's answer.
\<close>

theorem set_field_permissions_contact_edit:
  assumes "fst (sobject_create env sf FieldPermissions
             [(''Field'', PyStr ''Contact.Email''), (''PermissionsRead'', PyBool True),
              (''PermissionsEdit'', PyBool True), (''ParentId'', PyStr psId)] (remote w))
           = Inr result"
    and "truthy (dict_get result ''success'')"
  shows "issued w (snd (set_field_permissions env sf psId ''Contact'' [''Email'', ''Phone'']
                          ''edit'' w)) =
           [Create FieldPermissions
              [(''Field'', PyStr ''Contact.Email''), (''PermissionsRead'', PyBool True),
               (''PermissionsEdit'', PyBool True), (''ParentId'', PyStr psId)],
            Create FieldPermissions
              [(''Field'', PyStr ''Contact.Phone''), (''PermissionsRead'', PyBool True),
               (''PermissionsEdit'', PyBool True), (''ParentId'', PyStr psId)]]"
proof -
  let ?w0 = "logger INFO (''Setting permissions for '' @ str_nat (length [''Email'', ''Phone''])
                     @ '' fields in object '' @ ''Contact'') w"
  let ?p = "field_permission psId ''Contact'' ''edit''"
  have v: "''edit'' \<in> set [''read'', ''edit'']" by simp
  have p1: "?p ''Email'' = [(''Field'', PyStr ''Contact.Email''), (''PermissionsRead'', PyBool True),
              (''PermissionsEdit'', PyBool True), (''ParentId'', PyStr psId)]"
    and p2: "?p ''Phone'' = [(''Field'', PyStr ''Contact.Phone''), (''PermissionsRead'', PyBool True),
              (''PermissionsEdit'', PyBool True), (''ParentId'', PyStr psId)]"
    by (simp_all add: field_permission_def)
  have "fst (create env sf FieldPermissions (?p ''Email'') ?w0) = Inr result"
    unfolding create_fst remote_logger p1 by (rule assms(1))
  then obtain w1 where c: "create env sf FieldPermissions (?p ''Email'') ?w0 = (Inr result, w1)"
    by (metis prod.collapse)
  then have w1: "calls w1 = calls w @ [Create FieldPermissions (?p ''Email'')]"
    by (auto dest: create_calls_world)
  let ?w2 = "logger DEBUG (''Permissions for field '' @ ''Email'' @ '' successfully set'') w1"
  have "set_fields_loop env sf psId ''Contact'' ''edit'' [''Email'', ''Phone''] ?w0 =
          set_fields_loop env sf psId ''Contact'' ''edit'' [''Phone''] ?w2"
    using c assms(2) by simp
  then have "calls (snd (set_fields_loop env sf psId ''Contact'' ''edit'' [''Email'', ''Phone''] ?w0))
      = calls w @ [Create FieldPermissions (?p ''Email''), Create FieldPermissions (?p ''Phone'')]"
    using w1 by (simp only: set_fields_loop_single calls_logger append_assoc append_Cons append_Nil)
  then have "calls (snd (set_field_permissions env sf psId ''Contact'' [''Email'', ''Phone''] ''edit'' w))
      = calls w @ [Create FieldPermissions (?p ''Email''), Create FieldPermissions (?p ''Phone'')]"
    by (simp only: calls_set_field_permissions [OF v])
  then show ?thesis
    unfolding p1 p2 by (rule issued_append)
qed

theorem set_field_permissions_contact_edit_witness:
  "fst (sobject_create (mock_env 0) () FieldPermissions
             [(''Field'', PyStr ''Contact.Email''), (''PermissionsRead'', PyBool True),
              (''PermissionsEdit'', PyBool True), (''ParentId'', PyStr ''0PS'')] (remote world0))
           = Inr [(''success'', PyBool True), (''id'', PyStr ''0PS000000000001'')]
   \<and> truthy (dict_get [(''success'', PyBool True), (''id'', PyStr ''0PS000000000001'')] ''success'')
   \<and> issued world0 (snd (set_field_permissions (mock_env 0) () ''0PS'' ''Contact''
         [''Email'', ''Phone''] ''edit'' world0)) =
           [Create FieldPermissions
              [(''Field'', PyStr ''Contact.Email''), (''PermissionsRead'', PyBool True),
               (''PermissionsEdit'', PyBool True), (''ParentId'', PyStr ''0PS'')],
            Create FieldPermissions
              [(''Field'', PyStr ''Contact.Phone''), (''PermissionsRead'', PyBool True),
               (''PermissionsEdit'', PyBool True), (''ParentId'', PyStr ''0PS'')]]"
proof -
  have a: "fst (sobject_create (mock_env 0) () FieldPermissions
             [(''Field'', PyStr ''Contact.Email''), (''PermissionsRead'', PyBool True),
              (''PermissionsEdit'', PyBool True), (''ParentId'', PyStr ''0PS'')] (remote world0))
           = Inr [(''success'', PyBool True), (''id'', PyStr ''0PS000000000001'')]"
    by (simp add: mock_env_def world0_def)
  have b: "truthy (dict_get [(''success'', PyBool True), (''id'', PyStr ''0PS000000000001'')] ''success'')"
    by (simp add: dict_get_def)
  from a b set_field_permissions_contact_edit [OF a b] show ?thesis
    by (intro conjI)
qed

subsection \<open>The first failing field stops the loop\<close>

text \<open>
  Claim C3. Let the field list be \<open>pre @ field # post\<close>. Suppose the fields of \<open>pre\<close> go
  through (\<open>set_field_permissions\<close> on \<open>pre\<close> alone returns normally) and the create call
  for \<open>field\<close>, in the remote state they leave, returns a payload whose \<open>success\<close> is false,
  missing or otherwise falsy. Then \<open>set_field_permissions\<close> on the whole list raises the
  exception for \<open>field\<close>; the remote calls it has issued are the create calls of \<open>pre\<close> and
  of \<open>field\<close>, in order, and none for \<open>post\<close>; and the remote state is the one the failing
  call left on top of the earlier creations: nothing is rolled back. The witness is the
  second of three fields failing.
\<close>

theorem set_field_permissions_first_failure:
  assumes lvl: "access_level = ''read'' \<or> access_level = ''edit''"
    and pre: "fst (set_field_permissions env sf ps obj pre access_level w) = Inr ()"
    and rsp: "fst (sobject_create env sf FieldPermissions
                (field_permission ps obj access_level field)
                (remote (snd (set_field_permissions env sf ps obj pre access_level w))))
              = Inr result"
    and fails: "\<not> truthy (dict_get result ''success'')"
  shows "fst (set_field_permissions env sf ps obj (pre @ field # post) access_level w) =
           Inl (Exception (''Failed to set permissions for field '' @ field @ '': ''
                             @ value_str env (dict_get result ''errors'')))
         \<and> issued w (snd (set_field_permissions env sf ps obj (pre @ field # post)
                             access_level w)) =
             map (\<lambda>f. Create FieldPermissions (field_permission ps obj access_level f))
               (pre @ [field])
         \<and> remote (snd (set_field_permissions env sf ps obj (pre @ field # post)
                           access_level w)) =
             snd (sobject_create env sf FieldPermissions
                    (field_permission ps obj access_level field)
                    (remote (snd (set_field_permissions env sf ps obj pre access_level w))))"
proof -
  let ?mk = "\<lambda>f. Create FieldPermissions (field_permission ps obj access_level f)"
  let ?p = "field_permission ps obj access_level field"
  let ?loop = "set_fields_loop env sf ps obj access_level"
  let ?intro = "\<lambda>fs. logger INFO (''Setting permissions for '' @ str_nat (length fs)
                     @ '' fields in object '' @ obj) w"
  let ?all = "pre @ field # post"
  from lvl have v: "access_level \<in> set [''read'', ''edit'']" by auto
  have same: "remote (?intro ?all) = remote (?intro pre)" "calls (?intro ?all) = calls (?intro pre)"
    by simp_all
  note indep = set_fields_loop_logged [OF same, of env sf ps obj access_level pre]
  have ok': "fst (?loop pre (?intro pre)) = Inr ()"
    using pre by (simp only: fst_set_field_permissions [OF v])
  with indep have ok: "fst (?loop pre (?intro ?all)) = Inr ()" by simp
  obtain w1 where run: "?loop pre (?intro ?all) = (Inr (), w1)"
    using ok by (cases "?loop pre (?intro ?all)") simp
  have r1: "remote w1 = remote (snd (set_field_permissions env sf ps obj pre access_level w))"
    using indep run by (simp add: remote_set_field_permissions [OF v])
  have c1: "calls w1 = calls w @ map ?mk pre"
    using set_fields_loop_ok [OF ok] run by simp
  obtain r2 where sc: "sobject_create env sf FieldPermissions ?p (remote w1) = (Inr result, r2)"
    using rsp r1 by (cases "sobject_create env sf FieldPermissions ?p (remote w1)") simp
  have "?loop ?all (?intro ?all) = ?loop (field # post) w1"
    using run by (rule set_fields_loop_append)
  also have "\<dots> = (Inl (Exception (''Failed to set permissions for field '' @ field @ '': ''
                             @ value_str env (dict_get result ''errors''))),
                    w1\<lparr>remote := r2, calls := calls w1 @ [?mk field]\<rparr>)"
    using create_eq [OF sc] fails by simp
  finally have whole: "?loop ?all (?intro ?all) =
      (Inl (Exception (''Failed to set permissions for field '' @ field @ '': ''
                             @ value_str env (dict_get result ''errors''))),
       w1\<lparr>remote := r2, calls := calls w1 @ [?mk field]\<rparr>)" .
  have a: "fst (set_field_permissions env sf ps obj ?all access_level w) =
           Inl (Exception (''Failed to set permissions for field '' @ field @ '': ''
                             @ value_str env (dict_get result ''errors'')))"
    using whole by (simp only: fst_set_field_permissions [OF v] fst_conv)
  have "calls (snd (set_field_permissions env sf ps obj ?all access_level w)) =
          calls w @ map ?mk (pre @ [field])"
    using whole c1 by (simp add: calls_set_field_permissions [OF v])
  then have b: "issued w (snd (set_field_permissions env sf ps obj ?all access_level w)) =
          map ?mk (pre @ [field])"
    by (rule issued_append)
  have c: "remote (snd (set_field_permissions env sf ps obj ?all access_level w)) =
             snd (sobject_create env sf FieldPermissions ?p
                    (remote (snd (set_field_permissions env sf ps obj pre access_level w))))"
    using whole sc r1 by (simp add: remote_set_field_permissions [OF v])
  from a b c show ?thesis by (intro conjI)
qed

theorem set_field_permissions_first_failure_witness:
  "(''read'' = ''read'' \<or> ''read'' = ''edit'')
   \<and> fst (set_field_permissions (mock_env 2) () ''0PS'' ''Contact'' [''Email''] ''read'' world0)
       = Inr ()
   \<and> fst (sobject_create (mock_env 2) () FieldPermissions
            (field_permission ''0PS'' ''Contact'' ''read'' ''Phone'')
            (remote (snd (set_field_permissions (mock_env 2) () ''0PS'' ''Contact'' [''Email'']
                            ''read'' world0))))
       = Inr [(''success'', PyBool False), (''errors'', PyStr ''DUPLICATE_VALUE'')]
   \<and> \<not> truthy (dict_get [(''success'', PyBool False), (''errors'', PyStr ''DUPLICATE_VALUE'')]
                  ''success'')
   \<and> fst (set_field_permissions (mock_env 2) () ''0PS'' ''Contact''
            [''Email'', ''Phone'', ''Fax''] ''read'' world0)
       = Inl (Exception ''Failed to set permissions for field Phone: DUPLICATE_VALUE'')
   \<and> issued world0 (snd (set_field_permissions (mock_env 2) () ''0PS'' ''Contact''
            [''Email'', ''Phone'', ''Fax''] ''read'' world0))
       = [Create FieldPermissions
            [(''Field'', PyStr ''Contact.Email''), (''PermissionsRead'', PyBool True),
             (''PermissionsEdit'', PyBool False), (''ParentId'', PyStr ''0PS'')],
          Create FieldPermissions
            [(''Field'', PyStr ''Contact.Phone''), (''PermissionsRead'', PyBool True),
             (''PermissionsEdit'', PyBool False), (''ParentId'', PyStr ''0PS'')]]
   \<and> remote (snd (set_field_permissions (mock_env 2) () ''0PS'' ''Contact''
            [''Email'', ''Phone'', ''Fax''] ''read'' world0)) = 2"
proof -
  have lvl: "''read'' = ''read'' \<or> ''read'' = ''edit''" by simp
  have pre: "fst (set_field_permissions (mock_env 2) () ''0PS'' ''Contact'' [''Email''] ''read''
                    world0) = Inr ()"
    by (simp add: run_defs)
  have rsp: "fst (sobject_create (mock_env 2) () FieldPermissions
            (field_permission ''0PS'' ''Contact'' ''read'' ''Phone'')
            (remote (snd (set_field_permissions (mock_env 2) () ''0PS'' ''Contact'' [''Email'']
                            ''read'' world0))))
       = Inr [(''success'', PyBool False), (''errors'', PyStr ''DUPLICATE_VALUE'')]"
    by (simp add: run_defs)
  have fails: "\<not> truthy (dict_get [(''success'', PyBool False),
                  (''errors'', PyStr ''DUPLICATE_VALUE'')] ''success'')"
    by (simp add: dict_get_def)
  from set_field_permissions_first_failure [OF lvl pre rsp fails, of "[''Fax'']"]
  have "fst (set_field_permissions (mock_env 2) () ''0PS'' ''Contact''
            [''Email'', ''Phone'', ''Fax''] ''read'' world0)
       = Inl (Exception ''Failed to set permissions for field Phone: DUPLICATE_VALUE'')
   \<and> issued world0 (snd (set_field_permissions (mock_env 2) () ''0PS'' ''Contact''
            [''Email'', ''Phone'', ''Fax''] ''read'' world0))
       = [Create FieldPermissions
            [(''Field'', PyStr ''Contact.Email''), (''PermissionsRead'', PyBool True),
             (''PermissionsEdit'', PyBool False), (''ParentId'', PyStr ''0PS'')],
          Create FieldPermissions
            [(''Field'', PyStr ''Contact.Phone''), (''PermissionsRead'', PyBool True),
             (''PermissionsEdit'', PyBool False), (''ParentId'', PyStr ''0PS'')]]
   \<and> remote (snd (set_field_permissions (mock_env 2) () ''0PS'' ''Contact''
            [''Email'', ''Phone'', ''Fax''] ''read'' world0)) = 2"
    by (simp add: run_defs)
  with lvl pre rsp fails show ?thesis by blast
qed

subsection \<open>Creating a permission set\<close>

text \<open>
  Claim C4. \<open>create_permission_set\<close> with \<open>Account\<close> and \<open>edit\<close> issues a single remote call,
  a permission-set create call whose payload has \<open>Name\<close> \<open>Account_edit_Permissions\<close>,
  \<open>Label\<close> \<open>Account edit Permissions\<close> and a \<open>Description\<close> in which both \<open>Account\<close> and
  \<open>edit\<close> occur; and when the call returns a payload that reports success, the function
  returns \<open>result.get("id")\<close>, the identifier field of that payload, and nothing else.
\<close>

theorem create_permission_set_account_edit:
  "issued w (snd (create_permission_set env sf ''Account'' ''edit'' w)) =
     [Create PermissionSet
        [(''Name'', PyStr ''Account_edit_Permissions''),
         (''Label'', PyStr ''Account edit Permissions''),
         (''Description'', PyStr ''Permission set for Account with record type edit'')]]
   \<and> sublist ''Account'' ''Permission set for Account with record type edit''
   \<and> sublist ''edit'' ''Permission set for Account with record type edit''
   \<and> (\<forall>result.
         fst (sobject_create env sf PermissionSet
                [(''Name'', PyStr ''Account_edit_Permissions''),
                 (''Label'', PyStr ''Account edit Permissions''),
                 (''Description'', PyStr ''Permission set for Account with record type edit'')]
                (remote w)) = Inr result
         \<and> truthy (dict_get result ''success'')
         \<longrightarrow> fst (create_permission_set env sf ''Account'' ''edit'' w) =
               Inr (dict_get result ''id''))"
proof -
  have a: "issued w (snd (create_permission_set env sf ''Account'' ''edit'' w)) =
     [Create PermissionSet
        [(''Name'', PyStr ''Account_edit_Permissions''),
         (''Label'', PyStr ''Account edit Permissions''),
         (''Description'', PyStr ''Permission set for Account with record type edit'')]]"
    using calls_create_permission_set [of env sf "''Account''" "''edit''" w]
    by (intro issued_append) simp
  have b: "sublist ''Account'' ''Permission set for Account with record type edit''"
    by (simp add: sublist_code)
  have c: "sublist ''edit'' ''Permission set for Account with record type edit''"
    by (simp add: sublist_code)
  have d: "fst (create_permission_set env sf ''Account'' ''edit'' w) = Inr (dict_get result ''id'')"
    if "fst (sobject_create env sf PermissionSet
               [(''Name'', PyStr ''Account_edit_Permissions''),
                (''Label'', PyStr ''Account edit Permissions''),
                (''Description'', PyStr ''Permission set for Account with record type edit'')]
               (remote w)) = Inr result"
      and "truthy (dict_get result ''success'')" for result
    using that by (simp add: fst_create_permission_set)
  from a b c d show ?thesis by blast
qed

theorem create_permission_set_account_edit_witness:
  "fst (sobject_create (mock_env 0) () PermissionSet
          [(''Name'', PyStr ''Account_edit_Permissions''),
           (''Label'', PyStr ''Account edit Permissions''),
           (''Description'', PyStr ''Permission set for Account with record type edit'')]
          (remote world0)) = Inr [(''success'', PyBool True), (''id'', PyStr ''0PS000000000001'')]
   \<and> truthy (dict_get [(''success'', PyBool True), (''id'', PyStr ''0PS000000000001'')] ''success'')
   \<and> fst (create_permission_set (mock_env 0) () ''Account'' ''edit'' world0) =
       Inr (PyStr ''0PS000000000001'')"
proof -
  let ?result = "[(''success'', PyBool True), (''id'', PyStr ''0PS000000000001'')]"
  have a: "fst (sobject_create (mock_env 0) () PermissionSet
          [(''Name'', PyStr ''Account_edit_Permissions''),
           (''Label'', PyStr ''Account edit Permissions''),
           (''Description'', PyStr ''Permission set for Account with record type edit'')]
          (remote world0)) = Inr ?result"
    by (simp add: mock_env_def world0_def)
  have b: "truthy (dict_get ?result ''success'')"
    by (simp add: dict_get_def)
  have id: "dict_get ?result ''id'' = PyStr ''0PS000000000001''"
    by (simp add: dict_get_def)
  from create_permission_set_account_edit [of world0 "mock_env 0" "()"] a b
  have "fst (create_permission_set (mock_env 0) () ''Account'' ''edit'' world0) =
          Inr (dict_get ?result ''id'')"
    by blast
  with a b id show ?thesis by simp
qed

text \<open>
  Claim C5. For every session, \<open>object_name\<close> and \<open>record_type\<close>: when the create call
  returns a payload whose \<open>success\<close> is false, missing or otherwise falsy,
  \<open>create_permission_set\<close> raises \<open>Exception\<close>, and the message is
  \<open>Failed to create permission set:\<close> followed by the text of the payload's \<open>errors\<close>
  field, which therefore occurs in it.
\<close>

theorem create_permission_set_failure:
  assumes "fst (sobject_create env sf PermissionSet
                  [(''Name'', PyStr (object_name @ ''_'' @ record_type @ ''_Permissions'')),
                   (''Label'', PyStr (object_name @ '' '' @ record_type @ '' Permissions'')),
                   (''Description'',
                      PyStr (''Permission set for '' @ object_name @ '' with record type ''
                               @ record_type))]
                  (remote w)) = Inr result"
    and "\<not> truthy (dict_get result ''success'')"
  shows "fst (create_permission_set env sf object_name record_type w) =
           Inl (Exception (''Failed to create permission set: ''
                             @ value_str env (dict_get result ''errors'')))
         \<and> sublist (value_str env (dict_get result ''errors''))
             (''Failed to create permission set: '' @ value_str env (dict_get result ''errors''))"
proof -
  from assms
  have "fst (create_permission_set env sf object_name record_type w) =
          Inl (Exception (''Failed to create permission set: ''
                            @ value_str env (dict_get result ''errors'')))"
    by (simp add: fst_create_permission_set)
  moreover
  have "sublist (value_str env (dict_get result ''errors''))
          (''Failed to create permission set: '' @ value_str env (dict_get result ''errors''))"
    by (rule sublist_append_leftI)
  ultimately show ?thesis by (rule conjI)
qed

theorem create_permission_set_failure_witness:
  "fst (sobject_create (mock_env 1) () PermissionSet
          [(''Name'', PyStr (''Account'' @ ''_'' @ ''basic'' @ ''_Permissions'')),
           (''Label'', PyStr (''Account'' @ '' '' @ ''basic'' @ '' Permissions'')),
           (''Description'',
              PyStr (''Permission set for '' @ ''Account'' @ '' with record type '' @ ''basic''))]
          (remote world0))
     = Inr [(''success'', PyBool False), (''errors'', PyStr ''DUPLICATE_VALUE'')]
   \<and> \<not> truthy (dict_get [(''success'', PyBool False), (''errors'', PyStr ''DUPLICATE_VALUE'')]
                  ''success'')
   \<and> fst (create_permission_set (mock_env 1) () ''Account'' ''basic'' world0) =
       Inl (Exception ''Failed to create permission set: DUPLICATE_VALUE'')
   \<and> sublist ''DUPLICATE_VALUE'' ''Failed to create permission set: DUPLICATE_VALUE''"
proof -
  let ?result = "[(''success'', PyBool False), (''errors'', PyStr ''DUPLICATE_VALUE'')]"
  have a: "fst (sobject_create (mock_env 1) () PermissionSet
          [(''Name'', PyStr (''Account'' @ ''_'' @ ''basic'' @ ''_Permissions'')),
           (''Label'', PyStr (''Account'' @ '' '' @ ''basic'' @ '' Permissions'')),
           (''Description'',
              PyStr (''Permission set for '' @ ''Account'' @ '' with record type '' @ ''basic''))]
          (remote world0)) = Inr ?result"
    by (simp add: mock_env_def world0_def)
  have b: "\<not> truthy (dict_get ?result ''success'')"
    by (simp add: dict_get_def)
  have s: "value_str (mock_env 1) (dict_get ?result ''errors'') = ''DUPLICATE_VALUE''"
    by (simp add: mock_env_def dict_get_def)
  from create_permission_set_failure [OF a b]
  have "fst (create_permission_set (mock_env 1) () ''Account'' ''basic'' world0) =
       Inl (Exception ''Failed to create permission set: DUPLICATE_VALUE'')
   \<and> sublist ''DUPLICATE_VALUE'' ''Failed to create permission set: DUPLICATE_VALUE''"
    unfolding s by simp
  with a b show ?thesis by blast
qed

subsection \<open>The convenience function\<close>

text \<open>
  Claim C7. \<open>create_edit_permission_set(sf, object_name)\<close> is
  \<open>create_permission_set(sf, object_name, "edit")\<close>: in every world the two return the same
  value or raise the same exception and leave the same world, that is the same remote
  state, the same remote calls and the same log lines.
\<close>

theorem create_edit_permission_set_is_create_permission_set:
  "create_edit_permission_set env sf object_name w =
     create_permission_set env sf object_name ''edit'' w"
  by (simp add: create_edit_permission_set_def)

subsection \<open>Connecting\<close>

text \<open>
  Claim C9. For all credentials, \<open>connect_to_salesforce\<close> returns the session that the
  constructor \<open>Salesforce(...)\<close> returned, or raises the very exception the constructor
  raised. It calls the constructor once, with the four arguments it was given (no
  retry), and the remote state is the one that call left.
\<close>

theorem connect_to_salesforce_result:
  "fst (connect_to_salesforce env username password security_token domain w) =
     (case fst (salesforce_login env username password security_token domain (remote w)) of
        Inl e \<Rightarrow> Inl (ClientError e)
      | Inr sf \<Rightarrow> Inr sf)
   \<and> issued w (snd (connect_to_salesforce env username password security_token domain w)) =
       [Authenticate username password security_token domain]
   \<and> remote (snd (connect_to_salesforce env username password security_token domain w)) =
       snd (salesforce_login env username password security_token domain (remote w))"
proof -
  have "issued w (snd (connect_to_salesforce env username password security_token domain w)) =
       [Authenticate username password security_token domain]"
    using calls_connect_to_salesforce by (rule issued_append)
  then show ?thesis
    by (simp only: fst_connect_to_salesforce remote_connect_to_salesforce simp_thms)
qed

end
